theory Spec2Isabelle
  imports Complex_Main "HOL-Library.Word" "HOL-Library.Char_ord"
begin

section \<open>Audio Framer: the worklet processor\<close>

text \<open>
  The class \<^verbatim>\<open>AudioProcessor\<close> owns a \<^verbatim>\<open>Float32Array\<close> of \<^verbatim>\<open>bufferSize\<close> samples
  and a write index. A sample is a real number here: every \<^verbatim>\<open>Float32\<close> value other than
  NaN and the infinities is one, and the framer only copies samples.
\<close>

record AudioProcessor =
  bufferSize :: nat
  buffer :: "real list"
  bufferIndex :: nat

text \<open>The constructor: a zero-filled buffer of 4096 samples, index 0.\<close>

definition AudioProcessor_new :: AudioProcessor where
  "AudioProcessor_new = \<lparr>bufferSize = 4096, buffer = replicate 4096 0, bufferIndex = 0\<rparr>"

text \<open>
  The body of the \<^verbatim>\<open>for\<close> loop of \<^verbatim>\<open>process\<close>, for one sample: store it at the write
  index, advance the index and, when the index has reached \<^verbatim>\<open>bufferSize\<close>, post a copy
  of the buffer (\<^verbatim>\<open>this.buffer.slice()\<close>) and reset the index. The second component
  collects what \<^verbatim>\<open>port.postMessage\<close> was given, in order. A store past the end of a
  typed array is ignored, which is what \<open>list_update\<close> does.
\<close>

definition store_sample :: "AudioProcessor \<Rightarrow> real \<Rightarrow> AudioProcessor \<times> real list list" where
  "store_sample p x =
     (let p1 = p\<lparr>buffer := (buffer p)[bufferIndex p := x]\<rparr>;
          p2 = p1\<lparr>bufferIndex := bufferIndex p1 + 1\<rparr>
      in if bufferIndex p2 \<ge> bufferSize p2
         then (p2\<lparr>bufferIndex := 0\<rparr>, [buffer p2])
         else (p2, []))"

text \<open>The loop over \<^verbatim>\<open>inputData\<close>.\<close>

fun fill_buffer :: "AudioProcessor \<Rightarrow> real list \<Rightarrow> AudioProcessor \<times> real list list" where
  "fill_buffer p [] = (p, [])"
| "fill_buffer p (x # xs) =
     (let (p', posted) = store_sample p x;
          (p'', posted') = fill_buffer p' xs
      in (p'', posted @ posted'))"

text \<open>
  \<^verbatim>\<open>process(inputs, outputs, parameters)\<close>: \<open>input\<close> is \<^verbatim>\<open>inputs[0]\<close>, the list of
  channels of the node's single input. Only channel 0 is read, and only when the input
  has a channel at all.
\<close>

definition process :: "AudioProcessor \<Rightarrow> real list list \<Rightarrow> AudioProcessor \<times> real list list" where
  "process p input =
     (case input of
        [] \<Rightarrow> (p, [])
      | inputData # _ \<Rightarrow> fill_buffer p inputData)"

text \<open>The samples that one call of \<^verbatim>\<open>process\<close> reads.\<close>

definition captured :: "real list list \<Rightarrow> real list" where
  "captured input = (case input of [] \<Rightarrow> [] | inputData # _ \<Rightarrow> inputData)"

text \<open>
  The audio engine calls \<^verbatim>\<open>process\<close> once per render quantum, on the same object;
  \<open>process_all\<close> is that sequence of calls, with the posted frames in posting order.
\<close>

fun process_all :: "AudioProcessor \<Rightarrow> real list list list \<Rightarrow> AudioProcessor \<times> real list list" where
  "process_all p [] = (p, [])"
| "process_all p (input # inputs) =
     (let (p', posted) = process p input;
          (p'', posted') = process_all p' inputs
      in (p'', posted @ posted'))"

section \<open>Sample quantization\<close>

text \<open>
  \<^verbatim>\<open>convertToBase64\<close> computes \<^verbatim>\<open>Math.max(-32768, Math.min(32767, x * 32768))\<close> for
  every sample and stores it into an \<^verbatim>\<open>Int16Array\<close>. The product of a \<^verbatim>\<open>Float32\<close>
  value and \<open>2^15\<close> is exact in double precision, so the arithmetic is that of the reals.
  The store converts with \<^verbatim>\<open>ToInt16\<close>: the fraction is cut off towards zero and the
  integer is reduced modulo \<open>2^16\<close>. \<open>convertToInt16\<close> is the first loop of the
  function; the bytes of the array are then encoded in base64 as they are.
\<close>

definition scale_clamp :: "real \<Rightarrow> real" where
  "scale_clamp x = max (- 32768) (min 32767 (x * 32768))"

definition toInt16 :: "real \<Rightarrow> 16 word" where
  "toInt16 v = word_of_int (if 0 \<le> v then \<lfloor>v\<rfloor> else \<lceil>v\<rceil>)"

definition quantize :: "real \<Rightarrow> 16 word" where
  "quantize x = toInt16 (scale_clamp x)"

definition convertToInt16 :: "real list \<Rightarrow> 16 word list" where
  "convertToInt16 float32Array = map quantize float32Array"

section \<open>Upstream Transcription Client: class AssemblyAIStreaming\<close>

text \<open>
  \<^verbatim>\<open>readyState\<close> of a socket: 0, 1, 2, 3. The field \<open>ws\<close> is \<open>None\<close> for \<^verbatim>\<open>null\<close>
  and otherwise holds the ready state of the socket it points to. \<open>apiKey\<close> is \<open>None\<close>
  when the environment variable is not set.
\<close>

datatype ready_state = CONNECTING | OPEN | CLOSING | CLOSED

record AssemblyAIStreaming =
  apiKey :: "string option"
  ws :: "ready_state option"

definition AssemblyAIStreaming_new :: "string option \<Rightarrow> AssemblyAIStreaming" where
  "AssemblyAIStreaming_new key = \<lparr>apiKey = key, ws = None\<rparr>"

text \<open>
  Calls on the upstream socket, by the adapter. \<open>WsSend\<close> carries the base64 chunk whose
  decoding (\<^verbatim>\<open>Buffer.from(chunk, "base64")\<close>) is sent; \<open>WsClose\<close> the code and reason.
\<close>

datatype upstream_action =
    NewWebSocket
  | WsSend string
  | WsClose nat string

text \<open>
  The objects handed to \<^verbatim>\<open>JSON.stringify\<close> for the client:
  \<^verbatim>\<open>{type, message}\<close>, \<^verbatim>\<open>{type, error}\<close>, \<^verbatim>\<open>{error}\<close> and
  \<^verbatim>\<open>{text, partial, final, confidence}\<close>. The confidence is passed through as it came.
\<close>

datatype 'c client_json =
    Lifecycle string string
  | Failure string string
  | ErrorText string
  | Transcript string bool bool 'c

text \<open>
  A parsed upstream message, with the fields the handler reads; \<open>end_of_turn\<close> is the
  truthiness of \<^verbatim>\<open>message.end_of_turn\<close>. \<open>Malformed\<close> is a frame on which
  \<^verbatim>\<open>JSON.parse\<close> or a field access throws.
\<close>

record 'c upstream_payload =
  type :: "string option"
  message_type :: "string option"
  transcript :: "string option"
  end_of_turn :: bool
  end_of_turn_confidence :: 'c

datatype 'c upstream_frame = Malformed | Payload "'c upstream_payload"

text \<open>
  \<^verbatim>\<open>includes(".") || includes(",") || includes("!") || includes("?") || /[A-Z]/.test(..)\<close>
  on the transcript, a list of characters: the regular expression matches a character
  from \<^verbatim>\<open>A\<close> to \<^verbatim>\<open>Z\<close>, and nothing outside that range.
\<close>

definition hasProperFormatting :: "string \<Rightarrow> bool" where
  "hasProperFormatting t =
     (CHR ''.'' \<in> set t \<or> CHR '','' \<in> set t \<or> CHR ''!'' \<in> set t \<or> CHR ''?'' \<in> set t \<or>
      list_ex (\<lambda>c. CHR ''A'' \<le> c \<and> c \<le> CHR ''Z'') t)"

text \<open>
  The specification's words for the last disjunct are "contains an upper-case letter".
  Among the characters of the 8-bit type, read as code units, the upper-case letters are
  \<^verbatim>\<open>A\<close> to \<^verbatim>\<open>Z\<close> and those of Latin-1, \<^verbatim>\<open>U+00C0\<close> to \<^verbatim>\<open>U+00D6\<close> and
  \<^verbatim>\<open>U+00D8\<close> to \<^verbatim>\<open>U+00DE\<close>. \<open>spec_upper_case\<close> is that reading; it is not what the
  code tests.
\<close>

definition spec_upper_case :: "char \<Rightarrow> bool" where
  "spec_upper_case c =
     ((CHR ''A'' \<le> c \<and> c \<le> CHR ''Z'') \<or> (CHR 0xC0 \<le> c \<and> c \<le> CHR 0xD6) \<or>
      (CHR 0xD8 \<le> c \<and> c \<le> CHR 0xDE))"

text \<open>
  The \<^verbatim>\<open>"message"\<close> handler installed by \<^verbatim>\<open>connect\<close>: the object given to
  \<^verbatim>\<open>onMessage\<close>, if any. An empty transcript is falsy. An error while parsing is
  swallowed.
\<close>

definition on_upstream_message :: "'c upstream_frame \<Rightarrow> 'c client_json option" where
  "on_upstream_message frame =
     (case frame of
        Malformed \<Rightarrow> None
      | Payload message \<Rightarrow>
          if type message = Some ''Turn'' then
            (case transcript message of
               None \<Rightarrow> None
             | Some t \<Rightarrow>
                 if t = [] then None
                 else if \<not> end_of_turn message
                   then Some (Transcript t True False (end_of_turn_confidence message))
                 else if hasProperFormatting t
                   then Some (Transcript t False True (end_of_turn_confidence message))
                 else None)
          else if message_type message = Some ''SessionBegins''
            then Some (Lifecycle ''session_begins'' ''Session started'')
          else if message_type message = Some ''SessionTerminated''
            then Some (Lifecycle ''session_terminated'' ''Session terminated'')
          else None)"

text \<open>
  What the runtime may do to the adapter: \<open>ctor_throws\<close> is the error thrown by
  \<^verbatim>\<open>new WebSocket(...)\<close>, \<open>send_throws\<close> the one thrown by \<^verbatim>\<open>ws.send\<close>, if any.
\<close>

record runtime =
  ctor_throws :: "string option"
  send_throws :: "string option"

text \<open>
  \<^verbatim>\<open>connect(onMessage, onError, onClose)\<close>. The whole body is inside
  \<^verbatim>\<open>try { ... } catch (error) { onError(error) }\<close>, so the promise of this
  \<^verbatim>\<open>async\<close> method is always fulfilled: the result is \<open>Inr\<close> of the new adapter, the
  socket calls made, and the error that \<^verbatim>\<open>onError\<close> was called with before the
  method returned, if any. \<open>Inl\<close> would be a rejection. The method installs the handlers
  and returns without waiting for the socket to open.
\<close>

definition connect ::
  "runtime \<Rightarrow> AssemblyAIStreaming \<Rightarrow>
     string + (AssemblyAIStreaming \<times> upstream_action list \<times> string option)" where
  "connect rt a =
     (if apiKey a = None \<or> apiKey a = Some []
        then Inr (a, [], Some ''AssemblyAI API key is required'')
      else case ctor_throws rt of
        Some e \<Rightarrow> Inr (a, [NewWebSocket], Some e)
      | None \<Rightarrow> Inr (a\<lparr>ws := Some CONNECTING\<rparr>, [NewWebSocket], None))"

text \<open>\<^verbatim>\<open>sendAudio(base64AudioChunk)\<close>: \<open>Inl\<close> is the error thrown.\<close>

definition sendAudio ::
  "runtime \<Rightarrow> AssemblyAIStreaming \<Rightarrow> string \<Rightarrow> string + upstream_action list" where
  "sendAudio rt a base64AudioChunk =
     (if ws a = Some OPEN
        then (case send_throws rt of
                Some e \<Rightarrow> Inl e
              | None \<Rightarrow> Inr [WsSend base64AudioChunk])
      else Inl ''AssemblyAI WebSocket not connected'')"

text \<open>
  \<^verbatim>\<open>terminate()\<close>: closes an open socket (an error of \<^verbatim>\<open>close\<close> is swallowed) and
  sets the handle to \<^verbatim>\<open>null\<close>. Nothing in it can throw past its boundary, so the
  result is always \<open>Inr\<close>.
\<close>

definition terminate ::
  "AssemblyAIStreaming \<Rightarrow> string + (AssemblyAIStreaming \<times> upstream_action list)" where
  "terminate a =
     Inr (a\<lparr>ws := None\<rparr>,
          if ws a = Some OPEN then [WsClose 1000 ''Session terminated by user''] else [])"

section \<open>Session Proxy: the connection handler of the server\<close>

text \<open>
  The variables of one client connection: the adapter and the two flags of the closure.
\<close>

record session =
  assemblyAI :: AssemblyAIStreaming
  isSessionActive :: bool
  isTerminating :: bool

datatype 'c action =
    ClientSend "'c client_json"
  | Upstream upstream_action

text \<open>
  On \<^verbatim>\<open>"connection"\<close>: the variables are initialised and the confirmation is sent.
  Every \<^verbatim>\<open>client.send\<close> of the handlers below except the last one of \<open>on_message\<close> is
  wrapped in a \<^verbatim>\<open>try\<close> whose \<^verbatim>\<open>catch\<close> is empty, so what follows a send never depends
  on its success; \<open>ClientSend\<close> records the call.
\<close>

definition session_new :: "string option \<Rightarrow> session" where
  "session_new assemblyAIKey =
     \<lparr>assemblyAI = AssemblyAIStreaming_new assemblyAIKey,
      isSessionActive = False, isTerminating = False\<rparr>"

definition on_connection :: "string option \<Rightarrow> session \<times> 'c action list" where
  "on_connection assemblyAIKey =
     (session_new assemblyAIKey,
      [ClientSend (Lifecycle ''connection_established''
                     ''WebSocket connection established successfully'')])"

text \<open>The three callbacks that \<^verbatim>\<open>connectToAssemblyAI\<close> hands to \<^verbatim>\<open>connect\<close>.\<close>

definition onMessage :: "'c client_json \<Rightarrow> session \<Rightarrow> session \<times> 'c action list" where
  "onMessage data s = (s, [ClientSend data])"

definition onError :: "string \<Rightarrow> session \<Rightarrow> session \<times> 'c action list" where
  "onError message s =
     (s\<lparr>isSessionActive := False\<rparr>,
      [ClientSend (ErrorText (''AssemblyAI connection error: '' @ message))])"

fun decimal :: "nat \<Rightarrow> string" where
  "decimal n =
     (if n < 10 then [char_of (48 + n)]
      else decimal (n div 10) @ [char_of (48 + n mod 10)])"

definition onClose :: "nat \<Rightarrow> string \<Rightarrow> session \<Rightarrow> session \<times> 'c action list" where
  "onClose code reason s =
     (s\<lparr>isSessionActive := False\<rparr>,
      [ClientSend (ErrorText
         (if code = 4001 then ''Invalid AssemblyAI API key''
          else if code = 4105 then ''AssemblyAI model deprecated''
          else ''AssemblyAI connection closed: '' @ decimal code @ '' - '' @ reason))])"

text \<open>
  \<^verbatim>\<open>connectToAssemblyAI\<close>: the guard, then \<^verbatim>\<open>await assemblyAI.connect(...)\<close>, during
  which \<^verbatim>\<open>onError\<close> may already have run, then the flag and the confirmation. The
  \<^verbatim>\<open>catch (connectionError)\<close> branch is the \<open>Inl\<close> case.
\<close>

definition connectToAssemblyAI :: "runtime \<Rightarrow> session \<Rightarrow> session \<times> 'c action list" where
  "connectToAssemblyAI rt s =
     (if isSessionActive s \<or> isTerminating s then (s, [])
      else case connect rt (assemblyAI s) of
        Inr (a, calls, failure) \<Rightarrow>
          (let s1 = s\<lparr>assemblyAI := a\<rparr>;
               (s2, sent) = (case failure of
                               None \<Rightarrow> (s1, [])
                             | Some message \<Rightarrow> onError message s1)
           in (s2\<lparr>isSessionActive := True\<rparr>,
               map Upstream calls @ sent @
               [ClientSend (Lifecycle ''assemblyai_connected''
                              ''AssemblyAI connection established successfully'')]))
      | Inl message \<Rightarrow>
          (s\<lparr>isSessionActive := False\<rparr>,
           [ClientSend (Failure ''assemblyai_error''
                          (''Failed to connect to AssemblyAI: '' @ message))]))"

text \<open>
  The events of the socket that \<^verbatim>\<open>connect\<close> created, as its handlers pass them to the
  three callbacks: \<^verbatim>\<open>"open"\<close> only logs, \<^verbatim>\<open>"message"\<close> forwards what
  \<open>on_upstream_message\<close> gives, \<^verbatim>\<open>"error"\<close> and \<^verbatim>\<open>"close"\<close> call \<^verbatim>\<open>onError\<close> and
  \<^verbatim>\<open>onClose\<close>.
\<close>

datatype 'c upstream_event =
    UpstreamOpen
  | UpstreamMessage "'c upstream_frame"
  | UpstreamError string
  | UpstreamClose nat string

fun on_upstream_event :: "'c upstream_event \<Rightarrow> session \<Rightarrow> session \<times> 'c action list" where
  "on_upstream_event UpstreamOpen s = (s, [])"
| "on_upstream_event (UpstreamMessage frame) s =
     (case on_upstream_message frame of
        None \<Rightarrow> (s, [])
      | Some data \<Rightarrow> onMessage data s)"
| "on_upstream_event (UpstreamError message) s = onError message s"
| "on_upstream_event (UpstreamClose code reason) s = onClose code reason s"

text \<open>
  A message of the client, parsed: \<open>terminate_session\<close> is the truthiness of that field,
  \<open>audio_data\<close> the string of that field, empty (falsy) when the field is absent.
  \<open>Unparseable\<close> is a message on which \<^verbatim>\<open>JSON.parse\<close> or a field access throws.
\<close>

record client_data =
  terminate_session :: bool
  audio_data :: string

datatype client_frame = Unparseable | Json client_data

text \<open>\<^verbatim>\<open>client.on("message", ...)\<close>.\<close>

definition on_message :: "runtime \<Rightarrow> session \<Rightarrow> client_frame \<Rightarrow> session \<times> 'c action list" where
  "on_message rt s msg =
     (case msg of
        Unparseable \<Rightarrow> (s, [ClientSend (ErrorText ''Invalid message format'')])
      | Json data \<Rightarrow>
          if terminate_session data then
            (let s1 = s\<lparr>isSessionActive := False, isTerminating := True\<rparr>;
                 (s2, done) =
                   (case terminate (assemblyAI s1) of
                      Inr (a, calls) \<Rightarrow>
                        (s1\<lparr>assemblyAI := a\<rparr>,
                         map Upstream calls @
                         [ClientSend (Lifecycle ''session_terminated''
                                        ''AssemblyAI session terminated successfully'')])
                    | Inl message \<Rightarrow>
                        (s1,
                         [ClientSend (Failure ''termination_error''
                            (''Failed to terminate AssemblyAI session: '' @ message))]))
             in (s2\<lparr>isTerminating := False\<rparr>, done))
          else if audio_data data \<noteq> [] then
            (let (s1, connected) =
                   (if \<not> isSessionActive s \<and> \<not> isTerminating s
                      then connectToAssemblyAI rt s else (s, []));
                 forwarded =
                   (if isSessionActive s1 \<and> \<not> isTerminating s1 \<and>
                       ws (assemblyAI s1) = Some OPEN
                      then (case sendAudio rt (assemblyAI s1) (audio_data data) of
                              Inr calls \<Rightarrow> map Upstream calls
                            | Inl _ \<Rightarrow> [])
                    else [])
             in (s1, connected @ forwarded))
          else (s, []))"

text \<open>\<^verbatim>\<open>client.on("close", ...)\<close> and \<^verbatim>\<open>client.on("error", ...)\<close> have the same body.\<close>

definition on_client_gone :: "session \<Rightarrow> session \<times> 'c action list" where
  "on_client_gone s =
     (if isSessionActive s
        then (case terminate (assemblyAI s) of
                Inr (a, calls) \<Rightarrow>
                  (s\<lparr>assemblyAI := a, isSessionActive := False\<rparr>, map Upstream calls)
              | Inl _ \<Rightarrow> (s, []))
      else (s, []))"

text \<open>What a list of actions sends to the client, in order.\<close>

fun to_client :: "'c action list \<Rightarrow> 'c client_json list" where
  "to_client [] = []"
| "to_client (ClientSend j # as) = j # to_client as"
| "to_client (Upstream _ # as) = to_client as"

section \<open>Client Session Channel: class WebSocketManager\<close>

text \<open>
  The methods of \<^verbatim>\<open>WebSocketManager\<close> carry the prefix \<open>wsm_\<close>, and its field
  \<^verbatim>\<open>this.ws\<close> is \<open>wsm_ws\<close>: \<open>None\<close> for \<^verbatim>\<open>null\<close>, otherwise the ready state of the
  socket it points to. A registered observer is identified by a number; each of the three
  \<^verbatim>\<open>Set\<close>s is the list of its members in insertion order. The counters are small
  integers, on which \<^verbatim>\<open>Math.pow(2, n)\<close> and the product are exact.
\<close>

type_synonym handler = nat

record WebSocketManager =
  wsm_ws :: "ready_state option"
  isConnected :: bool
  isConnecting :: bool
  reconnectAttempts :: nat
  maxReconnectAttempts :: nat
  reconnectDelay :: nat
  intentionalClose :: bool
  messageHandlers :: "handler list"
  errorHandlers :: "handler list"
  closeHandlers :: "handler list"

definition WebSocketManager_new :: WebSocketManager where
  "WebSocketManager_new =
     \<lparr>wsm_ws = None, isConnected = False, isConnecting = False, reconnectAttempts = 0,
      maxReconnectAttempts = 5, reconnectDelay = 1000, intentionalClose = False,
      messageHandlers = [], errorHandlers = [], closeHandlers = []\<rparr>"

text \<open>\<^verbatim>\<open>Set.prototype.add\<close> and \<^verbatim>\<open>Set.prototype.delete\<close>.\<close>

definition set_add :: "handler \<Rightarrow> handler list \<Rightarrow> handler list" where
  "set_add h hs = (if h \<in> set hs then hs else hs @ [h])"

definition set_delete :: "handler \<Rightarrow> handler list \<Rightarrow> handler list" where
  "set_delete h hs = removeAll h hs"

definition wsm_onMessage :: "handler \<Rightarrow> WebSocketManager \<Rightarrow> WebSocketManager" where
  "wsm_onMessage h m = m\<lparr>messageHandlers := set_add h (messageHandlers m)\<rparr>"

definition wsm_offMessage :: "handler \<Rightarrow> WebSocketManager \<Rightarrow> WebSocketManager" where
  "wsm_offMessage h m = m\<lparr>messageHandlers := set_delete h (messageHandlers m)\<rparr>"

definition wsm_onError :: "handler \<Rightarrow> WebSocketManager \<Rightarrow> WebSocketManager" where
  "wsm_onError h m = m\<lparr>errorHandlers := set_add h (errorHandlers m)\<rparr>"

definition wsm_offError :: "handler \<Rightarrow> WebSocketManager \<Rightarrow> WebSocketManager" where
  "wsm_offError h m = m\<lparr>errorHandlers := set_delete h (errorHandlers m)\<rparr>"

definition wsm_onClose :: "handler \<Rightarrow> WebSocketManager \<Rightarrow> WebSocketManager" where
  "wsm_onClose h m = m\<lparr>closeHandlers := set_add h (closeHandlers m)\<rparr>"

definition wsm_offClose :: "handler \<Rightarrow> WebSocketManager \<Rightarrow> WebSocketManager" where
  "wsm_offClose h m = m\<lparr>closeHandlers := set_delete h (closeHandlers m)\<rparr>"

text \<open>
  What the manager does to the outside: it creates a socket, sets and clears its two
  timers, settles the promise of \<^verbatim>\<open>connect\<close>, calls an observer with an event, and
  sends on or closes the socket. An observer is called inside a \<^verbatim>\<open>try\<close> with an empty
  \<^verbatim>\<open>catch\<close>; the model records the call and takes the observer not to call back into
  the manager.
\<close>

datatype timer = ConnectionTimeout | ReconnectTimer

datatype event_arg = MessageData string | ErrorEvent string | CloseEvent nat

datatype client_action =
    NewSocket
  | SetTimeout timer nat
  | ClearTimeout timer
  | Resolve
  | Reject string
  | Call handler event_arg
  | SocketSend client_data
  | SocketClose

text \<open>
  \<^verbatim>\<open>connect()\<close>, up to the creation of the promise: the socket is created (the
  constructor does not throw on the manager's URL) and the connection timer is set to
  10000 ms. The handlers it installs follow.
\<close>

definition wsm_connect :: "WebSocketManager \<Rightarrow> WebSocketManager \<times> client_action list" where
  "wsm_connect m =
     (if isConnecting m \<or> isConnected m then (m, [Resolve])
      else (m\<lparr>isConnecting := True, wsm_ws := Some CONNECTING\<rparr>,
            [NewSocket, SetTimeout ConnectionTimeout 10000]))"

text \<open>
  The callback of the connection timer. It reads \<^verbatim>\<open>this.ws.readyState\<close>, which throws
  a \<^verbatim>\<open>TypeError\<close> when \<^verbatim>\<open>this.ws\<close> is \<^verbatim>\<open>null\<close>.
\<close>

definition wsm_connectionTimeout ::
  "WebSocketManager \<Rightarrow> string + (WebSocketManager \<times> client_action list)" where
  "wsm_connectionTimeout m =
     (case wsm_ws m of
        None \<Rightarrow> Inl ''TypeError''
      | Some readyState \<Rightarrow>
          if readyState \<noteq> OPEN
            then Inr (m\<lparr>isConnecting := False\<rparr>, [Reject ''Connection timeout''])
          else Inr (m, []))"

definition wsm_onopen :: "WebSocketManager \<Rightarrow> WebSocketManager \<times> client_action list" where
  "wsm_onopen m =
     (m\<lparr>isConnected := True, isConnecting := False, reconnectAttempts := 0\<rparr>,
      [ClearTimeout ConnectionTimeout, Resolve])"

text \<open>\<open>None\<close> is event data on which \<^verbatim>\<open>JSON.parse\<close> throws.\<close>

definition wsm_onmessage ::
  "string option \<Rightarrow> WebSocketManager \<Rightarrow> WebSocketManager \<times> client_action list" where
  "wsm_onmessage parsed m =
     (case parsed of
        None \<Rightarrow> (m, [])
      | Some data \<Rightarrow> (m, map (\<lambda>h. Call h (MessageData data)) (messageHandlers m)))"

text \<open>
  \<^verbatim>\<open>attemptReconnect()\<close>: an \<^verbatim>\<open>async\<close> method without \<^verbatim>\<open>await\<close> outside the timer
  callback, so its body runs within the call.
\<close>

definition wsm_attemptReconnect ::
  "WebSocketManager \<Rightarrow> WebSocketManager \<times> client_action list" where
  "wsm_attemptReconnect m =
     (if reconnectAttempts m \<ge> maxReconnectAttempts m then (m, [])
      else
        (let m1 = m\<lparr>reconnectAttempts := reconnectAttempts m + 1\<rparr>;
             delay = reconnectDelay m1 * 2 ^ (reconnectAttempts m1 - 1)
         in (m1, [SetTimeout ReconnectTimer delay])))"

definition wsm_onclose ::
  "nat \<Rightarrow> WebSocketManager \<Rightarrow> WebSocketManager \<times> client_action list" where
  "wsm_onclose code m =
     (let m1 = m\<lparr>isConnected := False, isConnecting := False\<rparr>;
          called = map (\<lambda>h. Call h (CloseEvent code)) (closeHandlers m1);
          (m2, scheduled) =
            (if code \<noteq> 1000 \<and> reconnectAttempts m1 < maxReconnectAttempts m1 \<and>
                \<not> intentionalClose m1
               then wsm_attemptReconnect m1 else (m1, []))
      in (m2\<lparr>intentionalClose := False\<rparr>,
          ClearTimeout ConnectionTimeout # called @ scheduled))"

definition wsm_onerror ::
  "string \<Rightarrow> WebSocketManager \<Rightarrow> WebSocketManager \<times> client_action list" where
  "wsm_onerror error m =
     (m\<lparr>isConnected := False, isConnecting := False\<rparr>,
      ClearTimeout ConnectionTimeout #
      map (\<lambda>h. Call h (ErrorEvent error)) (errorHandlers m) @ [Reject error])"

text \<open>
  \<^verbatim>\<open>send(data)\<close>: \<open>Inl\<close> is the error thrown. The browser's \<^verbatim>\<open>send\<close> does not throw
  on an open socket.
\<close>

definition wsm_send :: "WebSocketManager \<Rightarrow> client_data \<Rightarrow> string + client_action list" where
  "wsm_send m data =
     (if wsm_ws m = Some OPEN then Inr [SocketSend data]
      else Inl ''WebSocket not connected'')"

definition wsm_sendAudio :: "WebSocketManager \<Rightarrow> string \<Rightarrow> string + client_action list" where
  "wsm_sendAudio m audioData = wsm_send m \<lparr>terminate_session = False, audio_data = audioData\<rparr>"

definition wsm_terminate :: "WebSocketManager \<Rightarrow> string + client_action list" where
  "wsm_terminate m =
     (if wsm_ws m = Some OPEN
        then wsm_send m \<lparr>terminate_session = True, audio_data = []\<rparr>
      else Inr [])"

definition wsm_close :: "WebSocketManager \<Rightarrow> WebSocketManager \<times> client_action list" where
  "wsm_close m =
     (case wsm_ws m of
        Some _ \<Rightarrow> (m\<lparr>wsm_ws := None, isConnected := False, isConnecting := False\<rparr>,
                   [SocketClose])
      | None \<Rightarrow> (m\<lparr>isConnected := False, isConnecting := False\<rparr>, []))"

definition wsm_forceTerminate ::
  "WebSocketManager \<Rightarrow> WebSocketManager \<times> client_action list" where
  "wsm_forceTerminate m =
     (let sent = (if wsm_ws m = Some OPEN
                    then (case wsm_send m \<lparr>terminate_session = True, audio_data = []\<rparr> of
                            Inr actions \<Rightarrow> actions
                          | Inl _ \<Rightarrow> [])
                  else []);
          (m', closed) = wsm_close m
      in (m', sent @ closed))"

definition wsm_closeIntentionally ::
  "WebSocketManager \<Rightarrow> WebSocketManager \<times> client_action list" where
  "wsm_closeIntentionally m = wsm_close (m\<lparr>intentionalClose := True\<rparr>)"

text \<open>
  What can happen to a manager: a call of one of its methods, an event of a socket it
  created, a change of the ready state of the socket \<^verbatim>\<open>this.ws\<close> points to, or one of
  its timers firing. An error thrown to the caller, or out of a timer callback, leaves
  the manager as it was; the reconnect timer's callback calls \<^verbatim>\<open>connect\<close>.
\<close>

datatype client_event =
    CallConnect
  | CallSendAudio string
  | CallTerminate
  | CallForceTerminate
  | CallClose
  | CallCloseIntentionally
  | CallOnMessage handler | CallOffMessage handler
  | CallOnError handler | CallOffError handler
  | CallOnClose handler | CallOffClose handler
  | SocketOpens
  | SocketMessage "string option"
  | SocketCloses nat
  | SocketErrors string
  | ReadyStateBecomes ready_state
  | ConnectionTimeoutFires
  | ReconnectTimerFires

fun client_step :: "WebSocketManager \<Rightarrow> client_event \<Rightarrow> WebSocketManager \<times> client_action list" where
  "client_step m CallConnect = wsm_connect m"
| "client_step m (CallSendAudio audioData) =
     (case wsm_sendAudio m audioData of Inr actions \<Rightarrow> (m, actions) | Inl _ \<Rightarrow> (m, []))"
| "client_step m CallTerminate =
     (case wsm_terminate m of Inr actions \<Rightarrow> (m, actions) | Inl _ \<Rightarrow> (m, []))"
| "client_step m CallForceTerminate = wsm_forceTerminate m"
| "client_step m CallClose = wsm_close m"
| "client_step m CallCloseIntentionally = wsm_closeIntentionally m"
| "client_step m (CallOnMessage h) = (wsm_onMessage h m, [])"
| "client_step m (CallOffMessage h) = (wsm_offMessage h m, [])"
| "client_step m (CallOnError h) = (wsm_onError h m, [])"
| "client_step m (CallOffError h) = (wsm_offError h m, [])"
| "client_step m (CallOnClose h) = (wsm_onClose h m, [])"
| "client_step m (CallOffClose h) = (wsm_offClose h m, [])"
| "client_step m SocketOpens = wsm_onopen m"
| "client_step m (SocketMessage parsed) = wsm_onmessage parsed m"
| "client_step m (SocketCloses code) = wsm_onclose code m"
| "client_step m (SocketErrors error) = wsm_onerror error m"
| "client_step m (ReadyStateBecomes readyState) =
     (m\<lparr>wsm_ws := map_option (\<lambda>_. readyState) (wsm_ws m)\<rparr>, [])"
| "client_step m ConnectionTimeoutFires =
     (case wsm_connectionTimeout m of Inr result \<Rightarrow> result | Inl _ \<Rightarrow> (m, []))"
| "client_step m ReconnectTimerFires = wsm_connect m"

fun client_run :: "WebSocketManager \<Rightarrow> client_event list \<Rightarrow> WebSocketManager \<times> client_action list" where
  "client_run m [] = (m, [])"
| "client_run m (e # es) =
     (let (m', actions) = client_step m e;
          (m'', actions') = client_run m' es
      in (m'', actions @ actions'))"

text \<open>The delays of the reconnections that a list of actions schedules.\<close>

fun reconnects :: "client_action list \<Rightarrow> nat list" where
  "reconnects [] = []"
| "reconnects (SetTimeout ReconnectTimer delay # as) = delay # reconnects as"
| "reconnects (_ # as) = reconnects as"


text \<open>
  The closes with a code other than 1000 among a list of events, and the test for a close.
\<close>

fun abnormal_closes :: "client_event list \<Rightarrow> nat" where
  "abnormal_closes [] = 0"
| "abnormal_closes (SocketCloses code # es) =
     (if code \<noteq> 1000 then 1 else 0) + abnormal_closes es"
| "abnormal_closes (_ # es) = abnormal_closes es"

fun is_close :: "client_event \<Rightarrow> bool" where
  "is_close (SocketCloses _) = True"
| "is_close _ = False"


section \<open>Properties of the Audio Framer\<close>

text \<open>The samples written since the last posting.\<close>

definition pending :: "AudioProcessor \<Rightarrow> real list" where
  "pending p = take (bufferIndex p) (buffer p)"

definition framer_inv :: "AudioProcessor \<Rightarrow> bool" where
  "framer_inv p = (bufferIndex p < bufferSize p \<and> length (buffer p) = bufferSize p)"

lemma store_sample_inv:
  assumes "framer_inv p" and "store_sample p x = (p', posted)"
  shows "framer_inv p'" and "bufferSize p' = bufferSize p"
    and "concat posted @ pending p' = pending p @ [x]"
    and "map length posted = replicate (length posted) (bufferSize p)"
proof -
  let ?i = "bufferIndex p" and ?n = "bufferSize p"
  from assms(1) have i: "?i < ?n" and len: "length (buffer p) = ?n"
    by (simp_all add: framer_inv_def)
  have upd: "take (Suc ?i) ((buffer p)[?i := x]) = take ?i (buffer p) @ [x]"
    using i len by (simp add: take_Suc_conv_app_nth)
  show "framer_inv p'" "bufferSize p' = bufferSize p"
    "map length posted = replicate (length posted) (bufferSize p)"
    using assms(2) i len
    by (auto simp: store_sample_def framer_inv_def Let_def split: if_splits)
  show "concat posted @ pending p' = pending p @ [x]"
  proof (cases "Suc ?i \<ge> ?n")
    case True
    with i have "Suc ?i = ?n" by simp
    with upd len have "(buffer p)[?i := x] = take ?i (buffer p) @ [x]"
      by (metis length_list_update order_refl take_all)
    with True assms(2) show ?thesis
      by (auto simp: store_sample_def pending_def Let_def)
  next
    case False
    with assms(2) upd show ?thesis
      by (auto simp: store_sample_def pending_def Let_def)
  qed
qed

lemma fill_buffer_inv:
  "framer_inv p \<Longrightarrow> fill_buffer p xs = (p', posted) \<Longrightarrow>
     framer_inv p' \<and> bufferSize p' = bufferSize p \<and>
     concat posted @ pending p' = pending p @ xs \<and>
     map length posted = replicate (length posted) (bufferSize p)"
proof (induction xs arbitrary: p p' posted)
  case Nil
  then show ?case by simp
next
  case (Cons x xs)
  obtain p1 out1 where s: "store_sample p x = (p1, out1)"
    by (cases "store_sample p x")
  obtain p2 out2 where f: "fill_buffer p1 xs = (p2, out2)"
    by (cases "fill_buffer p1 xs")
  from Cons.prems(2) s f have eq: "p' = p2" "posted = out1 @ out2"
    by simp_all
  note st = store_sample_inv [OF Cons.prems(1) s]
  from Cons.IH [OF st(1) f] have ih: "framer_inv p2" "bufferSize p2 = bufferSize p1"
    "concat out2 @ pending p2 = pending p1 @ xs"
    "map length out2 = replicate (length out2) (bufferSize p1)"
    by simp_all
  have "concat (out1 @ out2) @ pending p2 = concat out1 @ pending p1 @ xs"
    using ih(3) by simp
  also have "\<dots> = pending p @ x # xs"
    using st(3) by (metis append.assoc append_Cons append_Nil)
  finally have c: "concat (out1 @ out2) @ pending p2 = pending p @ x # xs" .
  have "map length (out1 @ out2) = replicate (length (out1 @ out2)) (bufferSize p)"
    using st(4) ih(4) st(2) by (simp add: replicate_add)
  with c ih(1,2) st(2) eq show ?case by simp
qed

lemma process_inv:
  "framer_inv p \<Longrightarrow> process p input = (p', posted) \<Longrightarrow>
     framer_inv p' \<and> bufferSize p' = bufferSize p \<and>
     concat posted @ pending p' = pending p @ captured input \<and>
     map length posted = replicate (length posted) (bufferSize p)"
  using fill_buffer_inv [of p _ p' posted]
  by (cases input) (auto simp: process_def captured_def)

lemma process_all_inv:
  "framer_inv p \<Longrightarrow> process_all p inputs = (p', posted) \<Longrightarrow>
     framer_inv p' \<and> bufferSize p' = bufferSize p \<and>
     concat posted @ pending p' = pending p @ concat (map captured inputs) \<and>
     map length posted = replicate (length posted) (bufferSize p)"
proof (induction inputs arbitrary: p p' posted)
  case Nil
  then show ?case by simp
next
  case (Cons input inputs)
  obtain p1 out1 where s: "process p input = (p1, out1)"
    by (cases "process p input")
  obtain p2 out2 where f: "process_all p1 inputs = (p2, out2)"
    by (cases "process_all p1 inputs")
  from Cons.prems(2) s f have eq: "p' = p2" "posted = out1 @ out2"
    by simp_all
  from process_inv [OF Cons.prems(1) s] have st: "framer_inv p1" "bufferSize p1 = bufferSize p"
    "concat out1 @ pending p1 = pending p @ captured input"
    "map length out1 = replicate (length out1) (bufferSize p)"
    by simp_all
  from Cons.IH [OF st(1) f] have ih: "framer_inv p2" "bufferSize p2 = bufferSize p1"
    "concat out2 @ pending p2 = pending p1 @ concat (map captured inputs)"
    "map length out2 = replicate (length out2) (bufferSize p1)"
    by simp_all
  have "concat (out1 @ out2) @ pending p2
          = concat out1 @ pending p1 @ concat (map captured inputs)"
    using ih(3) by simp
  also have "\<dots> = pending p @ concat (map captured (input # inputs))"
    using st(3) by (metis append.assoc concat.simps(2) list.simps(9))
  finally have c: "concat (out1 @ out2) @ pending p2
          = pending p @ concat (map captured (input # inputs))" .
  have "map length (out1 @ out2) = replicate (length (out1 @ out2)) (bufferSize p)"
    using st(4) ih(4) st(2) by (simp add: replicate_add)
  with c ih(1,2) st(2) eq show ?case by simp
qed

lemma length_concat_uniform:
  "map length fs = replicate (length fs) n \<Longrightarrow> length (concat fs) = length fs * n"
  by (induction fs) auto

lemma framer_new_inv: "framer_inv AudioProcessor_new" "pending AudioProcessor_new = []"
  "bufferSize AudioProcessor_new = 4096"
  by (simp_all add: framer_inv_def AudioProcessor_new_def pending_def)

text \<open>
  C8. From the constructor's state, over any sequence of \<^verbatim>\<open>process\<close> calls, the
  posted frames concatenated in posting order are the captured samples cut down to a
  multiple of 4096; every posted frame has exactly 4096 samples (none is empty or
  short), and there is one posting per 4096 captured samples.
\<close>

theorem framer_emits_exact_frames:
  "concat (snd (process_all AudioProcessor_new inputs))
     = take (length (concat (map captured inputs)) div 4096 * 4096)
         (concat (map captured inputs))
   \<and> map length (snd (process_all AudioProcessor_new inputs))
     = replicate (length (concat (map captured inputs)) div 4096) 4096"
proof -
  let ?xs = "concat (map captured inputs)"
  obtain p' posted where r: "process_all AudioProcessor_new inputs = (p', posted)"
    by (cases "process_all AudioProcessor_new inputs")
  from process_all_inv [OF framer_new_inv(1) r]
  have inv: "framer_inv p'" and n: "bufferSize p' = 4096"
    and c: "concat posted @ pending p' = ?xs"
    and l: "map length posted = replicate (length posted) 4096"
    by (simp_all add: framer_new_inv)
  from inv n have short: "length (pending p') < 4096"
    by (simp add: framer_inv_def pending_def)
  have lc: "length (concat posted) = length posted * 4096"
    by (rule length_concat_uniform [OF l])
  from c have "length ?xs = length posted * 4096 + length (pending p')"
    using lc by (metis length_append)
  with short have k: "length ?xs div 4096 = length posted"
    by simp
  have "take (length posted * 4096) ?xs = concat posted"
    using c lc by (metis append_eq_conv_conj)
  with k l r show ?thesis by simp
qed

section \<open>Properties of the quantization\<close>

lemma sint_int16:
  "- 32768 \<le> k \<Longrightarrow> k \<le> 32767 \<Longrightarrow> sint (word_of_int k :: 16 word) = k"
  by (simp add: signed_of_int signed_take_bit_int_eq_self)

text \<open>
  C7. The quantization is scale-and-clamp into signed 16 bits, for every sample \<open>x\<close>:
  the stored value is 32767 when \<open>x * 32768\<close> is at least 32767, -32768 when it is at
  most -32768, and otherwise \<open>x * 32768\<close> with its fraction cut off towards zero. The
  sample 1.0 scales to 32768 and is clamped to 32767, the largest signed 16-bit value;
  the sample -1.0 scales to -32768, which is stored as it is.
\<close>

theorem quantize_scale_clamp:
  "sint (quantize x)
     = (if 32767 \<le> x * 32768 then 32767
        else if x * 32768 \<le> - 32768 then - 32768
        else if 0 \<le> x then \<lfloor>x * 32768\<rfloor> else \<lceil>x * 32768\<rceil>)
   \<and> sint (quantize 1) = 32767 \<and> sint (quantize (- 1)) = - 32768"
proof (intro conjI)
  show "sint (quantize x)
     = (if 32767 \<le> x * 32768 then 32767
        else if x * 32768 \<le> - 32768 then - 32768
        else if 0 \<le> x then \<lfloor>x * 32768\<rfloor> else \<lceil>x * 32768\<rceil>)"
  proof -
    let ?v = "x * 32768"
    consider (hi) "32767 \<le> ?v" | (lo) "?v \<le> - 32768"
      | (pos) "0 \<le> x" "?v < 32767" | (neg) "x < 0" "- 32768 < ?v"
      by linarith
    then show ?thesis
    proof cases
      case hi
      then have "scale_clamp x = 32767"
        by (simp add: scale_clamp_def)
      with hi show ?thesis
        by (simp add: quantize_def toInt16_def)
    next
      case lo
      then have "scale_clamp x = - 32768"
        by (simp add: scale_clamp_def)
      with lo show ?thesis
        by (simp add: quantize_def toInt16_def)
    next
      case pos
      then have s: "scale_clamp x = ?v" and nn: "0 \<le> ?v"
        by (simp_all add: scale_clamp_def)
      have "0 \<le> \<lfloor>?v\<rfloor>" "\<lfloor>?v\<rfloor> \<le> 32767"
        using nn pos(2) by (simp_all add: floor_le_iff)
      then have "sint (word_of_int \<lfloor>?v\<rfloor> :: 16 word) = \<lfloor>?v\<rfloor>"
        by (intro sint_int16) simp_all
      with s nn pos show ?thesis
        by (simp add: quantize_def toInt16_def)
    next
      case neg
      then have s: "scale_clamp x = ?v" and n: "?v < 0"
        by (simp_all add: scale_clamp_def)
      have "- 32768 \<le> \<lceil>?v\<rceil>" "\<lceil>?v\<rceil> \<le> 32767"
        using n neg(2) by (simp_all add: le_ceiling_iff ceiling_le_iff)
      then have "sint (word_of_int \<lceil>?v\<rceil> :: 16 word) = \<lceil>?v\<rceil>"
        by (intro sint_int16) simp_all
      with s n neg show ?thesis
        by (simp add: quantize_def toInt16_def)
    qed
  qed
  show "sint (quantize 1) = 32767"
    by (simp add: quantize_def scale_clamp_def toInt16_def)
  show "sint (quantize (- 1)) = - 32768"
    by (simp add: quantize_def scale_clamp_def toInt16_def)
qed

section \<open>Properties of the Upstream Transcription Client\<close>

text \<open>
  C4, as stated: an end-of-turn text is final when it contains an upper-case letter. The
  text \<^verbatim>\<open>Ecole\<close> written with the capital \<^verbatim>\<open>U+00C9\<close>, E with acute accent, contains
  an upper-case letter and none of the four marks; the handler gives nothing for it.
\<close>

theorem final_upper_case_counterexample:
  "list_ex spec_upper_case [CHR 0xC9, CHR ''c'', CHR ''o'', CHR ''l'', CHR ''e'']
   \<and> on_upstream_message
       (Payload \<lparr>type = Some ''Turn'', message_type = None,
                 transcript = Some [CHR 0xC9, CHR ''c'', CHR ''o'', CHR ''l'', CHR ''e''],
                 end_of_turn = True, end_of_turn_confidence = ()\<rparr>) = None"
  by (simp add: spec_upper_case_def on_upstream_message_def hasProperFormatting_def)

text \<open>
  C4, amended. For a \<^verbatim>\<open>Turn\<close> payload at the end of a turn with text \<open>t\<close>, the handler
  gives the final transcript of \<open>t\<close> exactly when \<open>t\<close> contains one of the marks
  \<^verbatim>\<open>. , ! ?\<close> or one of the letters \<^verbatim>\<open>A\<close> to \<^verbatim>\<open>Z\<close>, and nothing otherwise. The
  text \<^verbatim>\<open>hello world\<close> gives nothing; \<^verbatim>\<open>Hello world.\<close> gives its final transcript.
\<close>

theorem final_iff_formatted:
  "on_upstream_message
     (Payload \<lparr>type = Some ''Turn'', message_type = mt, transcript = Some t,
               end_of_turn = True, end_of_turn_confidence = c\<rparr>)
     = (if (\<exists>ch\<in>set t. ch = CHR ''.'' \<or> ch = CHR '','' \<or> ch = CHR ''!'' \<or> ch = CHR ''?'')
           \<or> (\<exists>ch\<in>set t. CHR ''A'' \<le> ch \<and> ch \<le> CHR ''Z'')
        then Some (Transcript t False True c) else None)
   \<and> on_upstream_message
     (Payload \<lparr>type = Some ''Turn'', message_type = mt, transcript = Some ''hello world'',
               end_of_turn = True, end_of_turn_confidence = c\<rparr>) = None
   \<and> on_upstream_message
     (Payload \<lparr>type = Some ''Turn'', message_type = mt, transcript = Some ''Hello world.'',
               end_of_turn = True, end_of_turn_confidence = c\<rparr>)
     = Some (Transcript ''Hello world.'' False True c)"
proof (intro conjI)
  show "on_upstream_message
     (Payload \<lparr>type = Some ''Turn'', message_type = mt, transcript = Some t,
               end_of_turn = True, end_of_turn_confidence = c\<rparr>)
     = (if (\<exists>ch\<in>set t. ch = CHR ''.'' \<or> ch = CHR '','' \<or> ch = CHR ''!'' \<or> ch = CHR ''?'')
           \<or> (\<exists>ch\<in>set t. CHR ''A'' \<le> ch \<and> ch \<le> CHR ''Z'')
        then Some (Transcript t False True c) else None)"
    by (auto simp: on_upstream_message_def hasProperFormatting_def list_ex_iff)
  show "on_upstream_message
     (Payload \<lparr>type = Some ''Turn'', message_type = mt, transcript = Some ''hello world'',
               end_of_turn = True, end_of_turn_confidence = c\<rparr>) = None"
    by (simp add: on_upstream_message_def hasProperFormatting_def)
  show "on_upstream_message
     (Payload \<lparr>type = Some ''Turn'', message_type = mt, transcript = Some ''Hello world.'',
               end_of_turn = True, end_of_turn_confidence = c\<rparr>)
     = Some (Transcript ''Hello world.'' False True c)"
    by (simp add: on_upstream_message_def hasProperFormatting_def)
qed

text \<open>
  C10. \<^verbatim>\<open>terminate\<close> always returns, with the handle \<^verbatim>\<open>null\<close> whatever it was
  before; a second \<^verbatim>\<open>terminate\<close> changes nothing and makes no call on a socket; and
  \<^verbatim>\<open>sendAudio\<close> after it throws the "not connected" error.
\<close>

theorem terminate_clears_handle:
  "\<exists>a' calls. terminate a = Inr (a', calls) \<and> ws a' = None \<and>
     terminate a' = Inr (a', []) \<and>
     sendAudio rt a' chunk = Inl ''AssemblyAI WebSocket not connected''"
  by (simp add: terminate_def sendAudio_def)

section \<open>Properties of the Session Proxy\<close>

text \<open>The promise of \<^verbatim>\<open>connect\<close> is never rejected.\<close>

lemma connect_never_rejects: "connect rt a \<noteq> Inl e"
  by (simp add: connect_def split: option.splits)

text \<open>
  C1. With no credential configured, the first audio message of a connection leaves the
  proxy with \<^verbatim>\<open>isSessionActive\<close> true and no upstream socket: \<^verbatim>\<open>connect\<close> reports
  the missing key through \<^verbatim>\<open>onError\<close> and returns normally, after which
  \<^verbatim>\<open>connectToAssemblyAI\<close> sets the flag and sends the \<^verbatim>\<open>assemblyai_connected\<close>
  confirmation after the error. In that state the next audio message is dropped and
  no connection is attempted.
\<close>

theorem missing_credential_leaves_active:
  "on_message \<lparr>ctor_throws = None, send_throws = None\<rparr> (session_new None)
     (Json \<lparr>terminate_session = False, audio_data = ''AAAA''\<rparr>)
   = (\<lparr>assemblyAI = \<lparr>apiKey = None, ws = None\<rparr>, isSessionActive = True,
       isTerminating = False\<rparr>,
      [ClientSend (ErrorText ''AssemblyAI connection error: AssemblyAI API key is required''),
       ClientSend (Lifecycle ''assemblyai_connected''
                     ''AssemblyAI connection established successfully'')])
   \<and> on_message \<lparr>ctor_throws = None, send_throws = None\<rparr>
       \<lparr>assemblyAI = \<lparr>apiKey = None, ws = None\<rparr>, isSessionActive = True,
        isTerminating = False\<rparr>
       (Json \<lparr>terminate_session = False, audio_data = ''BBBB''\<rparr>)
     = (\<lparr>assemblyAI = \<lparr>apiKey = None, ws = None\<rparr>, isSessionActive = True,
         isTerminating = False\<rparr>, [] :: unit action list)"
  by (simp add: on_message_def connectToAssemblyAI_def connect_def onError_def session_new_def
      AssemblyAIStreaming_new_def)

text \<open>
  C6. While \<^verbatim>\<open>isTerminating\<close> is true, an audio message changes nothing and causes no
  call at all: the frame is not sent upstream and no socket is created; and
  \<^verbatim>\<open>connectToAssemblyAI\<close> itself returns at its guard.
\<close>

theorem audio_dropped_while_terminating:
  "isTerminating s \<Longrightarrow>
     on_message rt s (Json \<lparr>terminate_session = False, audio_data = d\<rparr>)
       = (s, [] :: 'c action list)
     \<and> connectToAssemblyAI rt s = (s, [] :: 'c action list)"
  by (simp add: on_message_def connectToAssemblyAI_def)

theorem audio_dropped_while_terminating_witness:
  "isTerminating \<lparr>assemblyAI = \<lparr>apiKey = Some ''key'', ws = Some OPEN\<rparr>,
                  isSessionActive = True, isTerminating = True\<rparr>
   \<and> on_message \<lparr>ctor_throws = None, send_throws = None\<rparr>
        \<lparr>assemblyAI = \<lparr>apiKey = Some ''key'', ws = Some OPEN\<rparr>,
         isSessionActive = True, isTerminating = True\<rparr>
        (Json \<lparr>terminate_session = False, audio_data = ''AAAA''\<rparr>)
      = (\<lparr>assemblyAI = \<lparr>apiKey = Some ''key'', ws = Some OPEN\<rparr>,
          isSessionActive = True, isTerminating = True\<rparr>, [] :: unit action list)"
  using audio_dropped_while_terminating
    [where ?'c = unit, of "\<lparr>assemblyAI = \<lparr>apiKey = Some ''key'', ws = Some OPEN\<rparr>,
          isSessionActive = True, isTerminating = True\<rparr>"
        "\<lparr>ctor_throws = None, send_throws = None\<rparr>" "''AAAA''"]
  by simp

text \<open>
  C9. A \<^verbatim>\<open>terminate_session\<close> request, in any state of the proxy, sends the client
  exactly one message, the \<^verbatim>\<open>session_terminated\<close> confirmation (the teardown cannot
  throw, so \<^verbatim>\<open>termination_error\<close> is never the one), creates no upstream socket and
  leaves both flags false. On a fresh connection, where no upstream socket was ever
  created, the confirmation is all that happens.
\<close>

theorem terminate_session_confirms_once:
  "to_client (snd (on_message rt s (Json \<lparr>terminate_session = True, audio_data = d\<rparr>)))
     = [Lifecycle ''session_terminated'' ''AssemblyAI session terminated successfully'']
   \<and> Upstream NewWebSocket
       \<notin> set (snd (on_message rt s (Json \<lparr>terminate_session = True, audio_data = d\<rparr>)))
   \<and> isTerminating (fst (on_message rt s (Json \<lparr>terminate_session = True, audio_data = d\<rparr>)))
       = False
   \<and> isSessionActive (fst (on_message rt s (Json \<lparr>terminate_session = True, audio_data = d\<rparr>)))
       = False
   \<and> on_message rt (session_new key) (Json \<lparr>terminate_session = True, audio_data = d\<rparr>)
       = (session_new key,
          [ClientSend (Lifecycle ''session_terminated''
                         ''AssemblyAI session terminated successfully'')])"
  by (simp add: on_message_def terminate_def session_new_def AssemblyAIStreaming_new_def)

section \<open>Properties of the Client Session Channel\<close>

lemma reconnects_calls [simp]:
  "reconnects (map (\<lambda>h. Call h a) hs @ as) = reconnects as"
  by (induction hs) simp_all

lemma reconnects_calls_only [simp]:
  "reconnects (map (\<lambda>h. Call h a) hs) = []"
  using reconnects_calls [of a hs "[]"] by simp

lemma onclose_reconnects:
  assumes "code \<noteq> 1000" "\<not> intentionalClose m" "reconnectAttempts m < maxReconnectAttempts m"
  shows "wsm_onclose code m =
     (m\<lparr>isConnected := False, isConnecting := False,
        reconnectAttempts := reconnectAttempts m + 1, intentionalClose := False\<rparr>,
      ClearTimeout ConnectionTimeout # map (\<lambda>h. Call h (CloseEvent code)) (closeHandlers m) @
      [SetTimeout ReconnectTimer (reconnectDelay m * 2 ^ reconnectAttempts m)])"
  using assms by (simp add: wsm_onclose_def wsm_attemptReconnect_def Let_def)

lemma onclose_quiet:
  assumes "code = 1000 \<or> intentionalClose m \<or> maxReconnectAttempts m \<le> reconnectAttempts m"
  shows "wsm_onclose code m =
     (m\<lparr>isConnected := False, isConnecting := False, intentionalClose := False\<rparr>,
      ClearTimeout ConnectionTimeout # map (\<lambda>h. Call h (CloseEvent code)) (closeHandlers m))"
  using assms by (auto simp: wsm_onclose_def wsm_attemptReconnect_def Let_def)

text \<open>What a step other than an open or a close of the socket leaves alone.\<close>

lemma step_keeps_counters:
  assumes "e \<noteq> SocketOpens" "\<not> is_close e"
  shows "reconnectAttempts (fst (client_step m e)) = reconnectAttempts m"
    and "maxReconnectAttempts (fst (client_step m e)) = maxReconnectAttempts m"
    and "reconnectDelay (fst (client_step m e)) = reconnectDelay m"
  using assms
  by (cases e; simp add: wsm_connect_def wsm_forceTerminate_def wsm_close_def
        wsm_closeIntentionally_def wsm_onMessage_def wsm_offMessage_def wsm_onError_def
        wsm_offError_def wsm_onClose_def wsm_offClose_def wsm_onmessage_def wsm_onerror_def
        wsm_connectionTimeout_def wsm_sendAudio_def wsm_terminate_def wsm_send_def
        split: option.splits sum.splits prod.splits)+

lemma step_keeps_flag_set:
  assumes "\<not> is_close e" "intentionalClose m"
  shows "intentionalClose (fst (client_step m e))"
  using assms
  by (cases e; simp add: wsm_connect_def wsm_forceTerminate_def wsm_close_def
        wsm_closeIntentionally_def wsm_onMessage_def wsm_offMessage_def wsm_onError_def
        wsm_offError_def wsm_onClose_def wsm_offClose_def wsm_onmessage_def wsm_onerror_def
        wsm_connectionTimeout_def wsm_sendAudio_def wsm_terminate_def wsm_send_def wsm_onopen_def
        split: option.splits sum.splits prod.splits)

lemma step_keeps_flag_clear:
  assumes "e \<noteq> CallCloseIntentionally" "\<not> intentionalClose m"
  shows "\<not> intentionalClose (fst (client_step m e))"
  using assms
  by (cases e; simp add: wsm_connect_def wsm_forceTerminate_def wsm_close_def
        wsm_onclose_def wsm_attemptReconnect_def Let_def
        wsm_closeIntentionally_def wsm_onMessage_def wsm_offMessage_def wsm_onError_def
        wsm_offError_def wsm_onClose_def wsm_offClose_def wsm_onmessage_def wsm_onerror_def
        wsm_connectionTimeout_def wsm_sendAudio_def wsm_terminate_def wsm_send_def wsm_onopen_def
        split: option.splits sum.splits prod.splits)

lemma run_keeps_flag_set:
  "\<not> list_ex is_close evs \<Longrightarrow> intentionalClose m \<Longrightarrow>
     intentionalClose (fst (client_run m evs))"
proof (induction evs arbitrary: m)
  case Nil
  then show ?case by simp
next
  case (Cons e evs)
  from Cons.prems have "intentionalClose (fst (client_step m e))"
    by (simp add: step_keeps_flag_set)
  with Cons.IH [of "fst (client_step m e)"] Cons.prems(1) show ?case
    by (simp add: split_beta)
qed

lemma run_keeps_flag_clear:
  "CallCloseIntentionally \<notin> set evs \<Longrightarrow> \<not> intentionalClose m \<Longrightarrow>
     \<not> intentionalClose (fst (client_run m evs))"
proof (induction evs arbitrary: m)
  case Nil
  then show ?case by simp
next
  case (Cons e evs)
  from Cons.prems have "\<not> intentionalClose (fst (client_step m e))"
    using step_keeps_flag_clear [of e m] by auto
  with Cons.IH [of "fst (client_step m e)"] Cons.prems(1) show ?case
    by (simp add: split_beta)
qed


lemma step_keeps_max:
  "maxReconnectAttempts (fst (client_step m e)) = maxReconnectAttempts m"
  by (cases e; simp add: wsm_connect_def wsm_forceTerminate_def wsm_close_def
        wsm_onclose_def wsm_attemptReconnect_def Let_def
        wsm_closeIntentionally_def wsm_onMessage_def wsm_offMessage_def wsm_onError_def
        wsm_offError_def wsm_onClose_def wsm_offClose_def wsm_onmessage_def wsm_onerror_def
        wsm_connectionTimeout_def wsm_sendAudio_def wsm_terminate_def wsm_send_def wsm_onopen_def
        split: option.splits sum.splits prod.splits)

lemma run_keeps_max:
  "maxReconnectAttempts (fst (client_run m evs)) = maxReconnectAttempts m"
  by (induction evs arbitrary: m) (simp_all add: split_beta step_keeps_max)

lemma run_reaches_ceiling:
  "SocketOpens \<notin> set evs \<Longrightarrow> CallCloseIntentionally \<notin> set evs \<Longrightarrow>
   \<not> intentionalClose m \<Longrightarrow>
   maxReconnectAttempts m \<le> reconnectAttempts m + abnormal_closes evs \<Longrightarrow>
     maxReconnectAttempts m \<le> reconnectAttempts (fst (client_run m evs))"
proof (induction evs arbitrary: m)
  case Nil
  then show ?case by simp
next
  case (Cons e evs)
  let ?m = "fst (client_step m e)"
  from Cons.prems have e: "e \<noteq> SocketOpens" "e \<noteq> CallCloseIntentionally"
    and evs: "SocketOpens \<notin> set evs" "CallCloseIntentionally \<notin> set evs"
    by auto
  have flag: "\<not> intentionalClose ?m"
    using step_keeps_flag_clear [OF e(2) Cons.prems(3)] .
  have split: "abnormal_closes (e # evs) = abnormal_closes [e] + abnormal_closes evs"
    by (cases e) simp_all
  have step: "reconnectAttempts m + abnormal_closes [e] \<le> reconnectAttempts ?m
      \<or> maxReconnectAttempts m \<le> reconnectAttempts ?m"
  proof (cases "is_close e")
    case False
    then have "abnormal_closes [e] = 0"
      by (cases e) simp_all
    with step_keeps_counters(1) [OF e(1) False, of m] show ?thesis
      by simp
  next
    case True
    then obtain code where c: "e = SocketCloses code"
      by (cases e) simp_all
    show ?thesis
    proof (cases "code \<noteq> 1000 \<and> reconnectAttempts m < maxReconnectAttempts m")
      case True
      with Cons.prems(3) c show ?thesis
        by (simp add: onclose_reconnects)
    next
      case False
      then have "code = 1000 \<or> intentionalClose m \<or>
          maxReconnectAttempts m \<le> reconnectAttempts m"
        by auto
      from onclose_quiet [OF this] c False show ?thesis
        by auto
    qed
  qed
  have "maxReconnectAttempts ?m \<le> reconnectAttempts ?m + abnormal_closes evs"
    using step split Cons.prems(4) by (auto simp: step_keeps_max)
  from Cons.IH [OF evs flag this] show ?case
    by (simp add: split_beta step_keeps_max)
qed

text \<open>
  C2, as stated: the delay is \<^verbatim>\<open>reconnectDelay * 2^attempts\<close> for the counter as
  incremented before the delay is computed. On the first abnormal close of a new manager
  the counter becomes 1 and that formula gives 2000; the delay scheduled is 1000.
\<close>

theorem reconnect_delay_counterexample:
  "reconnects (snd (wsm_onclose 1006 WebSocketManager_new)) = [1000]
   \<and> reconnectAttempts (fst (wsm_onclose 1006 WebSocketManager_new)) = 1
   \<and> reconnectDelay WebSocketManager_new
       * 2 ^ reconnectAttempts (fst (wsm_onclose 1006 WebSocketManager_new)) = 2000
   \<and> reconnects (snd (wsm_onclose 1006 WebSocketManager_new))
       \<noteq> [reconnectDelay WebSocketManager_new
            * 2 ^ reconnectAttempts (fst (wsm_onclose 1006 WebSocketManager_new))]"
  by (simp add: wsm_onclose_def wsm_attemptReconnect_def WebSocketManager_new_def)

text \<open>
  C2, amended. On a close with a code other than 1000 that is not intentional, with the
  counter below the maximum, the counter is incremented and exactly one reconnection is
  scheduled, after \<^verbatim>\<open>reconnectDelay * 2^(attempts - 1)\<close> for the incremented counter.
  On a close with code 1000, or an intentional one, or with the counter at the maximum,
  none is scheduled and the counter stays. The counter is at the maximum once enough
  abnormal closes have been handled, none of them intentional (the flag clear before
  them and \<^verbatim>\<open>closeIntentionally\<close> not called among them) and with no open among them:
  as many as the maximum less the counter; and for a manager made by the constructor,
  whatever has happened to it before, five of them, after which no close schedules a
  reconnection.
\<close>

theorem reconnect_schedule:
  "(code \<noteq> 1000 \<and> \<not> intentionalClose m \<and> reconnectAttempts m < maxReconnectAttempts m \<longrightarrow>
      reconnectAttempts (fst (wsm_onclose code m)) = reconnectAttempts m + 1 \<and>
      reconnects (snd (wsm_onclose code m))
        = [reconnectDelay m * 2 ^ (reconnectAttempts (fst (wsm_onclose code m)) - 1)])
   \<and> (code' = 1000 \<or> intentionalClose m' \<or> maxReconnectAttempts m' \<le> reconnectAttempts m' \<longrightarrow>
        reconnects (snd (wsm_onclose code' m')) = [] \<and>
        reconnectAttempts (fst (wsm_onclose code' m')) = reconnectAttempts m')
   \<and> (\<not> intentionalClose m'' \<and> SocketOpens \<notin> set evs \<and> CallCloseIntentionally \<notin> set evs \<and>
       maxReconnectAttempts m'' \<le> reconnectAttempts m'' + abnormal_closes evs \<longrightarrow>
        reconnects (snd (wsm_onclose code'' (fst (client_run m'' evs)))) = [])
   \<and> (\<not> intentionalClose (fst (client_run WebSocketManager_new before)) \<and>
       SocketOpens \<notin> set evs' \<and> CallCloseIntentionally \<notin> set evs' \<and>
       5 \<le> abnormal_closes evs' \<longrightarrow>
        reconnects (snd (wsm_onclose code'''
          (fst (client_run (fst (client_run WebSocketManager_new before)) evs')))) = [])"
proof (intro conjI impI)
  assume a: "code \<noteq> 1000 \<and> \<not> intentionalClose m \<and> reconnectAttempts m < maxReconnectAttempts m"
  then have r: "wsm_onclose code m =
     (m\<lparr>isConnected := False, isConnecting := False,
        reconnectAttempts := reconnectAttempts m + 1, intentionalClose := False\<rparr>,
      ClearTimeout ConnectionTimeout # map (\<lambda>h. Call h (CloseEvent code)) (closeHandlers m) @
      [SetTimeout ReconnectTimer (reconnectDelay m * 2 ^ reconnectAttempts m)])"
    by (simp add: onclose_reconnects)
  show "reconnectAttempts (fst (wsm_onclose code m)) = reconnectAttempts m + 1"
    by (simp add: r)
  show "reconnects (snd (wsm_onclose code m))
        = [reconnectDelay m * 2 ^ (reconnectAttempts (fst (wsm_onclose code m)) - 1)]"
    by (simp add: r)
next
  assume "code' = 1000 \<or> intentionalClose m' \<or> maxReconnectAttempts m' \<le> reconnectAttempts m'"
  note q = onclose_quiet [OF this]
  show "reconnects (snd (wsm_onclose code' m')) = []"
    by (simp add: q)
  show "reconnectAttempts (fst (wsm_onclose code' m')) = reconnectAttempts m'"
    by (simp add: q)
next
  let ?m = "fst (client_run m'' evs)"
  assume a: "\<not> intentionalClose m'' \<and> SocketOpens \<notin> set evs \<and>
       CallCloseIntentionally \<notin> set evs \<and>
       maxReconnectAttempts m'' \<le> reconnectAttempts m'' + abnormal_closes evs"
  then have "maxReconnectAttempts m'' \<le> reconnectAttempts ?m"
    by (simp add: run_reaches_ceiling)
  then have "maxReconnectAttempts ?m \<le> reconnectAttempts ?m"
    by (simp add: run_keeps_max)
  then show "reconnects (snd (wsm_onclose code'' ?m)) = []"
    by (simp add: onclose_quiet)
next
  let ?start = "fst (client_run WebSocketManager_new before)"
  let ?m = "fst (client_run ?start evs')"
  assume a: "\<not> intentionalClose ?start \<and> SocketOpens \<notin> set evs' \<and>
       CallCloseIntentionally \<notin> set evs' \<and> 5 \<le> abnormal_closes evs'"
  have five: "maxReconnectAttempts ?start = 5"
    by (simp add: run_keeps_max WebSocketManager_new_def)
  with a have "maxReconnectAttempts ?start \<le> reconnectAttempts ?start + abnormal_closes evs'"
    by simp
  with a have "maxReconnectAttempts ?start \<le> reconnectAttempts ?m"
    by (simp add: run_reaches_ceiling)
  then have "maxReconnectAttempts ?m \<le> reconnectAttempts ?m"
    by (simp add: run_keeps_max)
  then show "reconnects (snd (wsm_onclose code''' ?m)) = []"
    by (simp add: onclose_quiet)
qed

text \<open>
  The cases of C2: on a new manager a close with code 1006 and one with code 1000; a
  manager with the counter at 3 after two abnormal closes; and a manager that has been
  open, after five closes with code 1006.
\<close>

theorem reconnect_schedule_witness:
  "(1006 \<noteq> (1000::nat) \<and> \<not> intentionalClose WebSocketManager_new
      \<and> reconnectAttempts WebSocketManager_new < maxReconnectAttempts WebSocketManager_new)
   \<and> reconnects (snd (wsm_onclose 1006 WebSocketManager_new)) = [1000]
   \<and> ((1000::nat) = 1000 \<or> intentionalClose WebSocketManager_new)
   \<and> reconnects (snd (wsm_onclose 1000 WebSocketManager_new)) = []
   \<and> (\<not> intentionalClose (WebSocketManager_new\<lparr>reconnectAttempts := 3\<rparr>)
      \<and> SocketOpens \<notin> set [SocketCloses 1006, ReconnectTimerFires, SocketCloses 1011]
      \<and> CallCloseIntentionally \<notin> set [SocketCloses 1006, ReconnectTimerFires, SocketCloses 1011]
      \<and> maxReconnectAttempts (WebSocketManager_new\<lparr>reconnectAttempts := 3\<rparr>)
          \<le> reconnectAttempts (WebSocketManager_new\<lparr>reconnectAttempts := 3\<rparr>)
            + abnormal_closes [SocketCloses 1006, ReconnectTimerFires, SocketCloses 1011])
   \<and> reconnects (snd (wsm_onclose 1006
        (fst (client_run (WebSocketManager_new\<lparr>reconnectAttempts := 3\<rparr>)
           [SocketCloses 1006, ReconnectTimerFires, SocketCloses 1011])))) = []
   \<and> (\<not> intentionalClose (fst (client_run WebSocketManager_new
           [CallConnect, ReadyStateBecomes OPEN, SocketOpens]))
      \<and> SocketOpens \<notin> set [SocketCloses 1006, ReconnectTimerFires, SocketCloses 1006,
                           SocketCloses 1006, SocketCloses 1006, SocketCloses 1006]
      \<and> CallCloseIntentionally \<notin> set [SocketCloses 1006, ReconnectTimerFires, SocketCloses 1006,
                           SocketCloses 1006, SocketCloses 1006, SocketCloses 1006]
      \<and> 5 \<le> abnormal_closes [SocketCloses 1006, ReconnectTimerFires, SocketCloses 1006,
                           SocketCloses 1006, SocketCloses 1006, SocketCloses 1006])
   \<and> reconnects (snd (wsm_onclose 1006
        (fst (client_run
          (fst (client_run WebSocketManager_new
                  [CallConnect, ReadyStateBecomes OPEN, SocketOpens]))
          [SocketCloses 1006, ReconnectTimerFires, SocketCloses 1006,
           SocketCloses 1006, SocketCloses 1006, SocketCloses 1006])))) = []"
  using reconnect_schedule [of 1006 WebSocketManager_new 1000 WebSocketManager_new
      "WebSocketManager_new\<lparr>reconnectAttempts := 3\<rparr>"
      "[SocketCloses 1006, ReconnectTimerFires, SocketCloses 1011]" 1006
      "[CallConnect, ReadyStateBecomes OPEN, SocketOpens]"
      "[SocketCloses 1006, ReconnectTimerFires, SocketCloses 1006,
        SocketCloses 1006, SocketCloses 1006, SocketCloses 1006]" 1006]
  by (simp add: WebSocketManager_new_def wsm_connect_def wsm_onopen_def)







text \<open>
  C5. After \<^verbatim>\<open>closeIntentionally\<close>, whatever happens before the next close event, that
  close schedules no reconnection, whatever its code, and leaves the flag cleared; from
  then on, as long as \<^verbatim>\<open>closeIntentionally\<close> is not called again, a close with a code
  other than 1000 and the counter below the maximum schedules a reconnection.
\<close>

theorem intentional_close_one_shot:
  "\<not> list_ex is_close evs1 \<Longrightarrow> CallCloseIntentionally \<notin> set evs2 \<Longrightarrow>
   (let m1 = fst (client_run (fst (wsm_closeIntentionally m)) evs1);
        m2 = fst (wsm_onclose code m1);
        m3 = fst (client_run m2 evs2)
    in reconnects (snd (wsm_onclose code m1)) = []
       \<and> \<not> intentionalClose m2
       \<and> (code' \<noteq> 1000 \<and> reconnectAttempts m3 < maxReconnectAttempts m3 \<longrightarrow>
            reconnects (snd (wsm_onclose code' m3))
              = [reconnectDelay m3 * 2 ^ reconnectAttempts m3]))"
proof -
  assume a: "\<not> list_ex is_close evs1" and b: "CallCloseIntentionally \<notin> set evs2"
  let ?m1 = "fst (client_run (fst (wsm_closeIntentionally m)) evs1)"
  let ?m2 = "fst (wsm_onclose code ?m1)"
  let ?m3 = "fst (client_run ?m2 evs2)"
  have "intentionalClose (fst (wsm_closeIntentionally m))"
    by (simp add: wsm_closeIntentionally_def wsm_close_def split: option.splits)
  then have armed: "intentionalClose ?m1"
    using a by (rule run_keeps_flag_set [rotated])
  then have q: "wsm_onclose code ?m1 =
     (?m1\<lparr>isConnected := False, isConnecting := False, intentionalClose := False\<rparr>,
      ClearTimeout ConnectionTimeout # map (\<lambda>h. Call h (CloseEvent code)) (closeHandlers ?m1))"
    by (simp add: onclose_quiet)
  have 1: "reconnects (snd (wsm_onclose code ?m1)) = []"
    by (simp add: q)
  have 2: "\<not> intentionalClose ?m2"
    by (simp add: q)
  have clear: "\<not> intentionalClose ?m3"
    using b 2 by (rule run_keeps_flag_clear)
  have 3: "code' \<noteq> 1000 \<and> reconnectAttempts ?m3 < maxReconnectAttempts ?m3 \<longrightarrow>
            reconnects (snd (wsm_onclose code' ?m3))
              = [reconnectDelay ?m3 * 2 ^ reconnectAttempts ?m3]"
    using clear by (simp add: onclose_reconnects)
  from 1 2 3 show ?thesis
    by (simp add: Let_def)
qed

text \<open>
  C5 on a connected manager: intentional close, a \<^verbatim>\<open>connect\<close> before the close event
  with code 1005 arrives, the new socket opens, and then closes with code 1006.
\<close>

theorem intentional_close_one_shot_witness:
  "\<not> list_ex is_close [CallConnect]
   \<and> CallCloseIntentionally \<notin> set [ReadyStateBecomes OPEN, SocketOpens, ReadyStateBecomes CLOSED]
   \<and> reconnects (snd (wsm_onclose 1005
        (fst (client_run (fst (wsm_closeIntentionally
           (WebSocketManager_new\<lparr>wsm_ws := Some OPEN, isConnected := True\<rparr>))) [CallConnect])))) = []
   \<and> ((1006::nat) \<noteq> 1000 \<and> (0::nat) < 5)
   \<and> reconnects (snd (wsm_onclose 1006
        (fst (client_run
          (fst (wsm_onclose 1005
            (fst (client_run (fst (wsm_closeIntentionally
               (WebSocketManager_new\<lparr>wsm_ws := Some OPEN, isConnected := True\<rparr>))) [CallConnect]))))
          [ReadyStateBecomes OPEN, SocketOpens, ReadyStateBecomes CLOSED])))) = [1000]"
  using intentional_close_one_shot
    [of "[CallConnect]" "[ReadyStateBecomes OPEN, SocketOpens, ReadyStateBecomes CLOSED]"
        "WebSocketManager_new\<lparr>wsm_ws := Some OPEN, isConnected := True\<rparr>" 1005 1006]
  by (simp add: WebSocketManager_new_def Let_def wsm_closeIntentionally_def wsm_close_def
      wsm_connect_def wsm_onclose_def wsm_onopen_def wsm_attemptReconnect_def)

end
